theory Spec2Isabelle
  imports Main
begin

section \<open>Data model (src/types/blockchain.ts)\<close>

subsection \<open>JavaScript numbers\<close>

text \<open>
  A TypeScript \<open>number\<close> is an IEEE 754 binary64 value. The service adds (\<open>+=\<close>) and
  orders (\<open><\<close>) one kind of number only, the work score of a bundle and the ACK count
  added to it; these are modelled as doubles. Every finite double is an integer multiple
  of \<open>2^-1074\<close>: \<open>Finite k\<close> is the double of value \<open>k * 2^-1074\<close>. Negative zero is
  identified with zero, which \<open>+\<close>, \<open><\<close> and the template literals of the service do
  not tell apart.

  The other numbers (sidechain and escrow numbers, versions, output indices, block
  counts) are only stored, compared with \<open>===\<close> and printed; they are modelled as \<open>int\<close>,
  that is for integer arguments.
\<close>

datatype number = Finite int | PosInfinity | NegInfinity | NaN

text \<open>The number of binary digits of a natural number.\<close>

fun bitLength :: "nat \<Rightarrow> nat" where
  "bitLength n = (if n = 0 then 0 else Suc (bitLength (n div 2)))"

declare bitLength.simps [simp del]

text \<open>
  Rounding a magnitude (in units of \<open>2^-1074\<close>) to 53 significant bits, to nearest, ties
  to the even significand. Magnitudes below \<open>2^53\<close> units are subnormal or of the least
  exponent and are exact.
\<close>

definition roundMagnitude :: "nat \<Rightarrow> nat" where
  "roundMagnitude k =
     (if k < 2 ^ 53 then k
      else let sh = bitLength k - 53; q = k div 2 ^ sh; r = k mod 2 ^ sh; half = 2 ^ (sh - 1)
           in (if half < r \<or> (r = half \<and> odd q) then q + 1 else q) * 2 ^ sh)"

text \<open>
  The double nearest to the exact value \<open>k * 2^-1074\<close>; a rounded magnitude of \<open>2^1024\<close>
  (\<open>2^2098\<close> units) or more overflows to an infinity.
\<close>

definition round64 :: "int \<Rightarrow> number" where
  "round64 k =
     (let m = roundMagnitude (nat \<bar>k\<bar>) in
      if 2 ^ 2098 \<le> m then (if 0 < k then PosInfinity else NegInfinity)
      else Finite (sgn k * int m))"

text \<open>The value of an integer literal.\<close>

definition num :: "int \<Rightarrow> number" where
  "num n = round64 (n * 2 ^ 1074)"

text \<open>The operators \<open>+\<close> and \<open><\<close> on numbers.\<close>

fun jsAdd :: "number \<Rightarrow> number \<Rightarrow> number" where
  "jsAdd NaN y = NaN"
| "jsAdd x NaN = NaN"
| "jsAdd PosInfinity NegInfinity = NaN"
| "jsAdd NegInfinity PosInfinity = NaN"
| "jsAdd PosInfinity y = PosInfinity"
| "jsAdd x PosInfinity = PosInfinity"
| "jsAdd NegInfinity y = NegInfinity"
| "jsAdd x NegInfinity = NegInfinity"
| "jsAdd (Finite a) (Finite b) = round64 (a + b)"

fun jsLess :: "number \<Rightarrow> number \<Rightarrow> bool" where
  "jsLess NaN y = False"
| "jsLess x NaN = False"
| "jsLess (Finite a) (Finite b) = (a < b)"
| "jsLess x NegInfinity = False"
| "jsLess PosInfinity y = False"
| "jsLess NegInfinity y = True"
| "jsLess x PosInfinity = True"

subsection \<open>Records\<close>

datatype BitcoinNetwork = MAINNET | TESTNET | REGTEST

record ActivationStatus =
  age :: int
  fails :: int

record Ctip =
  txid :: string
  vout :: int

record SidechainInfo =
  escrowNumber :: int
  version :: int
  name :: string
  description :: string
  tarballHash :: string
  gitCommitHash :: string
  isActive :: bool
  activationStatus :: "ActivationStatus option"
  ctip :: Ctip

record WithdrawalBundle =
  sidechainNumber :: int
  bundleHash :: string
  workScore :: number
  blocksRemaining :: int

text \<open>
  The service reports failures as message strings built from templates. Each constructor
  stands for one template of src/services/bip300.ts:
  \<^item> \<open>SidechainNotFound n\<close>: "Sidechain with escrow number n not found";
  \<^item> \<open>BundleNotFound h\<close>: "Withdrawal bundle with hash h not found";
  \<^item> \<open>NotEnoughAcks w\<close>: "Withdrawal bundle has not received enough ACKs (w/13150)";
  \<^item> \<open>Caught p e\<close>: "p: e", the message of a \<open>catch\<close> block with prefix \<open>p\<close> and the
    thrown value \<open>e\<close>.
\<close>

datatype ErrorMessage =
    SidechainNotFound int
  | BundleNotFound string
  | NotEnoughAcks number
  | Caught string string

text \<open>\<open>BlockchainResponse<T>\<close>: every field but \<open>success\<close> is optional.\<close>

record 'a BlockchainResponse =
  success :: bool
  data :: "'a option"
  error :: "ErrorMessage option"
  code :: "int option"

definition succeed :: "'a \<Rightarrow> 'a BlockchainResponse" where
  "succeed d = \<lparr>success = True, data = Some d, error = None, code = None\<rparr>"

definition failWith :: "ErrorMessage option \<Rightarrow> 'a BlockchainResponse" where
  "failWith e = \<lparr>success = False, data = None, error = e, code = None\<rparr>"

section \<open>The service state (class BIP300Service)\<close>

record BIP300Service =
  network :: BitcoinNetwork
  sidechains :: "SidechainInfo list"
  withdrawalBundles :: "WithdrawalBundle list"

definition zeroHash64 :: string where
  "zeroHash64 = ''0000000000000000000000000000000000000000000000000000000000000000''"

definition zeroHash40 :: string where
  "zeroHash40 = ''0000000000000000000000000000000000000000''"

definition mockSidechain :: "int \<Rightarrow> string \<Rightarrow> string \<Rightarrow> string \<Rightarrow> SidechainInfo" where
  "mockSidechain n nm descr tx =
     \<lparr>escrowNumber = n, version = 1, name = nm, description = descr,
      tarballHash = zeroHash64, gitCommitHash = zeroHash40, isActive = True,
      activationStatus = None, ctip = \<lparr>txid = tx, vout = 0\<rparr>\<rparr>"

definition mockBundle1 :: WithdrawalBundle where
  "mockBundle1 =
     \<lparr>sidechainNumber = 0,
      bundleHash = ''0000000000000000000000000000000000000000000000000000000000000001'',
      workScore = num 5000, blocksRemaining = 10000\<rparr>"

definition mockBundle2 :: WithdrawalBundle where
  "mockBundle2 =
     \<lparr>sidechainNumber = 2,
      bundleHash = ''0000000000000000000000000000000000000000000000000000000000000002'',
      workScore = num 8000, blocksRemaining = 8000\<rparr>"

definition initializeMockData :: "BIP300Service \<Rightarrow> BIP300Service" where
  "initializeMockData s =
     s\<lparr>sidechains :=
         [mockSidechain 0 ''BitNames''
            ''Own one username that you use everywhere - replaces DNS, logging in, and email''
            ''7ea0d7c5fa0a5a5c1b5f2c8209d90b0cc459450c1ad025680bd7861ed970379c'',
          mockSidechain 1 ''BitAssets''
            ''A sidechain for issuing Bit-Art (NFTs) and digital assets (ICOs, tokens)''
            ''8fa1d8c6fb1b6b6c2c6f3c9d0a90b1cc4694a1c2ad026771bd7972fe981479d'',
          mockSidechain 2 ''zSide''
            ''A zCash clone, for privacy''
            ''9gb2e9d7fc2c7c7d3d7f4dad1a91b2dd5795b2d3be137862ce8983gf992580e'',
          mockSidechain 3 ''Thunder''
            ''A high performance largeblock sidechain''
            ''agc3fad8gd3d8d8e4e8gadad2a92c3ee6896c3e4cf248963df9a94hga93691f''],
       withdrawalBundles := [mockBundle1, mockBundle2]\<rparr>"

text \<open>
  The constructor: the field initialisers, then \<open>initializeMockData\<close>. (The dash in the
  description of sidechain 0 is a hyphen here; no operation reads the descriptions.)
\<close>

definition newBIP300Service :: BIP300Service where
  "newBIP300Service =
     initializeMockData \<lparr>network = TESTNET, sidechains = [], withdrawalBundles = []\<rparr>"

section \<open>Array helpers and try/catch\<close>

text \<open>
  \<open>Array.prototype.find\<close> is \<^const>\<open>List.find\<close>. \<open>Array.prototype.findIndex\<close>
  returns the index of the first element satisfying the predicate, or \<open>-1\<close>.
\<close>

fun findIndexFrom :: "('a \<Rightarrow> bool) \<Rightarrow> 'a list \<Rightarrow> nat \<Rightarrow> int" where
  "findIndexFrom P [] i = - 1"
| "findIndexFrom P (x # xs) i = (if P x then int i else findIndexFrom P xs (Suc i))"

definition findIndex :: "('a \<Rightarrow> bool) \<Rightarrow> 'a list \<Rightarrow> int" where
  "findIndex P xs = findIndexFrom P xs 0"

text \<open>
  A \<open>try\<close> body either completes with a value or throws; the \<open>catch\<close> block turns the
  thrown value (rendered as a string by the template literal) into the returned value.
  Every mutation in the service is the last statement before its \<open>return\<close>, so a
  handler always sees the state the call started with.
\<close>

datatype 'a completion = Normal 'a | Throw string

definition tryCatch :: "'a completion \<Rightarrow> (string \<Rightarrow> 'a) \<Rightarrow> 'a" where
  "tryCatch body handler = (case body of Normal r \<Rightarrow> r | Throw e \<Rightarrow> handler e)"

section \<open>The operations of BIP300Service (src/services/bip300.ts)\<close>

text \<open>
  Each method is a function from the state before the call (and the arguments) to the
  value its promise resolves to and the state after the call.
\<close>

text \<open>
  \<open>setNetwork\<close> is declared \<open>void\<close>: it assigns the field and hands \<open>undefined\<close> back to
  its caller, where the other methods hand back a response.
\<close>

datatype 'a returned = Response "'a BlockchainResponse" | Undefined

definition setNetwork ::
  "BIP300Service \<Rightarrow> BitcoinNetwork \<Rightarrow> unit returned \<times> BIP300Service" where
  "setNetwork s nw = (Undefined, s\<lparr>network := nw\<rparr>)"

definition getSidechains ::
  "BIP300Service \<Rightarrow> SidechainInfo list BlockchainResponse \<times> BIP300Service" where
  "getSidechains s =
     tryCatch (Normal (succeed (sidechains s), s))
       (\<lambda>e. (failWith (Some (Caught ''Error getting sidechains'' e)), s))"

definition getSidechain ::
  "BIP300Service \<Rightarrow> int \<Rightarrow> SidechainInfo BlockchainResponse \<times> BIP300Service" where
  "getSidechain s n =
     tryCatch
       (case List.find (\<lambda>sc. escrowNumber sc = n) (sidechains s) of
          None \<Rightarrow> Normal (failWith (Some (SidechainNotFound n)), s)
        | Some sidechain \<Rightarrow> Normal (succeed sidechain, s))
       (\<lambda>e. (failWith (Some (Caught ''Error getting sidechain'' e)), s))"

definition getWithdrawalBundles ::
  "BIP300Service \<Rightarrow> WithdrawalBundle list BlockchainResponse \<times> BIP300Service" where
  "getWithdrawalBundles s =
     tryCatch (Normal (succeed (withdrawalBundles s), s))
       (\<lambda>e. (failWith (Some (Caught ''Error getting withdrawal bundles'' e)), s))"

definition getWithdrawalBundlesForSidechain ::
  "BIP300Service \<Rightarrow> int \<Rightarrow> WithdrawalBundle list BlockchainResponse \<times> BIP300Service" where
  "getWithdrawalBundlesForSidechain s n =
     tryCatch
       (let bundles = filter (\<lambda>bundle. sidechainNumber bundle = n) (withdrawalBundles s)
        in Normal (succeed bundles, s))
       (\<lambda>e. (failWith (Some (Caught ''Error getting withdrawal bundles for sidechain'' e)), s))"

definition createDepositTransaction ::
  "BIP300Service \<Rightarrow> int \<Rightarrow> int \<Rightarrow> int \<Rightarrow> string BlockchainResponse \<times> BIP300Service" where
  "createDepositTransaction s n amount feeRate =
     tryCatch
       (let (sidechainResponse, s1) = getSidechain s n in
        if \<not> success sidechainResponse
        then Normal (failWith (error sidechainResponse), s1)
        else Normal
          (succeed ''7ea0d7c5fa0a5a5c1b5f2c8209d90b0cc459450c1ad025680bd7861ed970379c'', s1))
       (\<lambda>e. (failWith (Some (Caught ''Error creating deposit transaction'' e)), s))"

definition createWithdrawalBundleProposal ::
  "BIP300Service \<Rightarrow> int \<Rightarrow> string \<Rightarrow> bool BlockchainResponse \<times> BIP300Service" where
  "createWithdrawalBundleProposal s n h =
     tryCatch
       (Normal (succeed True,
          s\<lparr>withdrawalBundles := withdrawalBundles s @
              [\<lparr>sidechainNumber = n, bundleHash = h, workScore = num 1,
                blocksRemaining = 26299\<rparr>]\<rparr>))
       (\<lambda>e. (failWith (Some (Caught ''Error creating withdrawal bundle proposal'' e)), s))"

definition simulateAckWithdrawalBundle ::
  "BIP300Service \<Rightarrow> string \<Rightarrow> number \<Rightarrow> bool BlockchainResponse \<times> BIP300Service" where
  "simulateAckWithdrawalBundle s h ackCount =
     tryCatch
       (let bundleIndex = findIndex (\<lambda>bundle. bundleHash bundle = h) (withdrawalBundles s) in
        if bundleIndex = - 1
        then Normal (failWith (Some (BundleNotFound h)), s)
        else Normal (succeed True,
          s\<lparr>withdrawalBundles := (withdrawalBundles s)
              [nat bundleIndex := (withdrawalBundles s ! nat bundleIndex)
                 \<lparr>workScore :=
                    jsAdd (workScore (withdrawalBundles s ! nat bundleIndex)) ackCount\<rparr>]\<rparr>))
       (\<lambda>e. (failWith (Some (Caught ''Error ACKing withdrawal bundle'' e)), s))"

definition createWithdrawalTransaction ::
  "BIP300Service \<Rightarrow> string \<Rightarrow> string BlockchainResponse \<times> BIP300Service" where
  "createWithdrawalTransaction s h =
     tryCatch
       (case List.find (\<lambda>bundle. bundleHash bundle = h) (withdrawalBundles s) of
          None \<Rightarrow> Normal (failWith (Some (BundleNotFound h)), s)
        | Some bundle \<Rightarrow>
            if jsLess (workScore bundle) (num 13150)
            then Normal (failWith (Some (NotEnoughAcks (workScore bundle))), s)
            else Normal
              (succeed ''8fa1d8c6fb1b6b6c2c6f3c9d0a90b1cc4694a1c2ad026771bd7972fe981479d'', s))
       (\<lambda>e. (failWith (Some (Caught ''Error creating withdrawal transaction'' e)), s))"

definition getWithdrawalBundleState ::
  "BIP300Service \<Rightarrow> string \<Rightarrow> WithdrawalBundle BlockchainResponse \<times> BIP300Service" where
  "getWithdrawalBundleState s h =
     tryCatch
       (case List.find (\<lambda>bundle. bundleHash bundle = h) (withdrawalBundles s) of
          None \<Rightarrow> Normal (failWith (Some (BundleNotFound h)), s)
        | Some bundle \<Rightarrow> Normal (succeed bundle, s))
       (\<lambda>e. (failWith (Some (Caught ''Error getting withdrawal bundle state'' e)), s))"

section \<open>Notions used to state the properties\<close>

text \<open>
  A response is structured when it is a success carrying data and no error message, or a
  failure carrying an error message and no data.
\<close>

definition structured :: "'a BlockchainResponse \<Rightarrow> bool" where
  "structured r =
     (if success r then data r \<noteq> None \<and> error r = None
      else data r = None \<and> error r \<noteq> None)"

text \<open>What a method hands back is a structured result when it is a structured response.\<close>

definition structuredResult :: "'a returned \<Rightarrow> bool" where
  "structuredResult v = (case v of Response r \<Rightarrow> structured r | Undefined \<Rightarrow> False)"

text \<open>
  \<open>WithdrawalBundle\<close> has no state field. The bundles of sidechain \<open>n\<close> that the service
  is still scoring are read off the stored data: the entries stored for \<open>n\<close> that are below
  the 13150 ACKs \<open>createWithdrawalTransaction\<close> asks for and have blocks remaining.
\<close>

definition activeBundles :: "BIP300Service \<Rightarrow> int \<Rightarrow> WithdrawalBundle list" where
  "activeBundles s n =
     filter (\<lambda>b. sidechainNumber b = n \<and> jsLess (workScore b) (num 13150)
                \<and> 0 < blocksRemaining b)
       (withdrawalBundles s)"

section \<open>Facts about numbers\<close>

lemma bitLength_gt: "n < 2 ^ bitLength n"
proof (induction n rule: bitLength.induct)
  case (1 n)
  show ?case
  proof (cases "n = 0")
    case True
    then show ?thesis by simp
  next
    case False
    with 1 have "n div 2 < 2 ^ bitLength (n div 2)" by simp
    then have "n < 2 * 2 ^ bitLength (n div 2)" by linarith
    with False show ?thesis by (subst bitLength.simps) simp
  qed
qed

lemma bitLength_le: "n < 2 ^ j \<Longrightarrow> bitLength n \<le> j"
proof (induction n arbitrary: j rule: bitLength.induct)
  case (1 n)
  show ?case
  proof (cases "n = 0")
    case True
    then show ?thesis by (subst bitLength.simps) simp
  next
    case False
    with "1.prems" obtain i where j: "j = Suc i" by (cases j) auto
    with "1.prems" have "n div 2 < 2 ^ i" by simp
    from "1.IH" [OF False this] have "bitLength (n div 2) \<le> i" .
    with False j show ?thesis by (subst bitLength.simps) simp
  qed
qed

lemma bitLength_double: "0 < n \<Longrightarrow> bitLength (2 * n) = Suc (bitLength n)"
  by (subst bitLength.simps) simp

lemma bitLength_shift: "0 < n \<Longrightarrow> bitLength (n * 2 ^ j) = bitLength n + j"
proof (induction j)
  case 0
  then show ?case by simp
next
  case (Suc j)
  then have "bitLength (2 * (n * 2 ^ j)) = Suc (bitLength (n * 2 ^ j))"
    by (intro bitLength_double) simp
  with Suc show ?case by (simp add: mult.commute mult.left_commute)
qed

lemma roundMagnitude_scaled:
  assumes "N \<le> 2 ^ 53" and "53 \<le> u"
  shows "roundMagnitude (N * 2 ^ u) = N * 2 ^ u"
proof (cases "N = 0")
  case True
  then show ?thesis by (simp add: roundMagnitude_def)
next
  case False
  let ?k = "N * 2 ^ u"
  let ?sh = "bitLength ?k - 53"
  have big: "\<not> ?k < 2 ^ 53"
  proof -
    have "(2::nat) ^ 53 \<le> 2 ^ u" using assms(2) by (rule power_increasing) simp
    also have "\<dots> \<le> ?k" using False by simp
    finally show ?thesis by simp
  qed
  have bl: "bitLength ?k = bitLength N + u"
    using False by (simp add: bitLength_shift)
  have dvd: "2 ^ ?sh dvd ?k"
  proof (cases "N < 2 ^ 53")
    case True
    then have "bitLength N \<le> 53" by (rule bitLength_le)
    then have "?sh \<le> u" using bl by simp
    then have "(2::nat) ^ ?sh dvd 2 ^ u" by (rule le_imp_power_dvd)
    then show ?thesis by (rule dvd_mult)
  next
    case F: False
    with assms have N: "N = 2 ^ 53" by simp
    have "N < 2 ^ 54" unfolding N by simp
    then have "bitLength N \<le> 54" by (rule bitLength_le)
    then have "?sh \<le> 53 + u" using bl by simp
    then have "(2::nat) ^ ?sh dvd 2 ^ (53 + u)" by (rule le_imp_power_dvd)
    moreover have "?k = 2 ^ (53 + u)" unfolding N by (simp only: power_add)
    ultimately show ?thesis by simp
  qed
  then have r: "?k mod 2 ^ ?sh = 0" by simp
  have half: "(0::nat) < 2 ^ (?sh - 1)" by simp
  from dvd have "?k div 2 ^ ?sh * 2 ^ ?sh = ?k" by simp
  with big r half show ?thesis
    unfolding roundMagnitude_def Let_def by simp
qed

lemma round64_scaled:
  assumes "\<bar>n\<bar> \<le> 2 ^ 53" and "53 \<le> u" and "u \<le> 1074"
  shows "round64 (n * 2 ^ u) = Finite (n * 2 ^ u)"
proof -
  let ?N = "nat \<bar>n\<bar>"
  have N: "?N \<le> 2 ^ 53" using assms(1) by (simp add: nat_le_iff)
  have abs: "nat \<bar>n * 2 ^ u\<bar> = ?N * 2 ^ u"
    by (simp add: abs_mult nat_mult_distrib nat_power_eq)
  have m: "roundMagnitude (nat \<bar>n * 2 ^ u\<bar>) = ?N * 2 ^ u"
    unfolding abs using N assms(2) by (rule roundMagnitude_scaled)
  have "?N * 2 ^ u \<le> 2 ^ 53 * 2 ^ 1074"
    using N assms(3) by (intro mult_mono power_increasing) simp_all
  also have "\<dots> < (2::nat) ^ 2098" by (simp only: flip: power_add) simp
  finally have small: "\<not> 2 ^ 2098 \<le> ?N * 2 ^ u" by simp
  have sg: "sgn (n * 2 ^ u) * int (?N * 2 ^ u) = n * 2 ^ u"
    by (simp add: sgn_mult abs_mult_sgn sgn_mult_abs)
  show ?thesis
    unfolding round64_def Let_def m using small sg by simp
qed

lemma num_safe: "\<bar>n\<bar> \<le> 2 ^ 53 \<Longrightarrow> num n = Finite (n * 2 ^ 1074)"
  unfolding num_def by (rule round64_scaled) simp_all

lemma jsAdd_num:
  assumes "\<bar>a\<bar> \<le> 2 ^ 53" and "\<bar>c\<bar> \<le> 2 ^ 53" and "\<bar>a + c\<bar> \<le> 2 ^ 53"
  shows "jsAdd (num a) (num c) = num (a + c)"
proof -
  have "jsAdd (num a) (num c) = round64 (a * 2 ^ 1074 + c * 2 ^ 1074)"
    using assms(1,2) by (simp only: num_safe jsAdd.simps)
  also have "\<dots> = num (a + c)"
    by (simp only: num_def distrib_right)
  finally show ?thesis .
qed

lemma jsLess_num:
  assumes "\<bar>a\<bar> \<le> 2 ^ 53" and "\<bar>c\<bar> \<le> 2 ^ 53"
  shows "jsLess (num a) (num c) = (a < c)"
proof -
  have "jsLess (num a) (num c) = (a * 2 ^ 1074 < c * 2 ^ 1074)"
    using assms by (simp only: num_safe jsLess.simps)
  also have "\<dots> = (a < c)" by (simp only: mult_less_cancel_right_pos zero_less_power zero_less_numeral)
  finally show ?thesis .
qed

lemma num_eq_iff:
  assumes "\<bar>a\<bar> \<le> 2 ^ 53" and "\<bar>c\<bar> \<le> 2 ^ 53"
  shows "(num a = num c) = (a = c)"
proof -
  have "(num a = num c) = (a * 2 ^ 1074 = c * (2::int) ^ 1074)"
    using assms by (simp only: num_safe number.inject)
  also have "\<dots> = (a = c)" by (simp only: mult_cancel_right power_eq_0_iff) simp
  finally show ?thesis .
qed

lemma roundMagnitude_shift:
  assumes "2 ^ 53 \<le> k"
  shows "roundMagnitude (k * 2 ^ u) = roundMagnitude k * 2 ^ u"
proof -
  let ?sh = "bitLength k - 53"
  have "(0::nat) < 2 ^ 53" by simp
  with assms have pos: "0 < k" by linarith
  have "(2::nat) ^ 53 < 2 ^ bitLength k"
    using assms bitLength_gt [of k] by (rule le_less_trans)
  then have bl54: "53 < bitLength k" by (simp only: power_strict_increasing_iff [of 2] one_less_numeral_iff semiring_norm)
  have big: "\<not> k < 2 ^ 53" using assms by simp
  have "(2::nat) ^ 53 * 1 \<le> k * 2 ^ u"
    using assms by (intro mult_le_mono) simp_all
  then have big': "\<not> k * 2 ^ u < 2 ^ 53" by simp
  have sh': "bitLength (k * 2 ^ u) - 53 = ?sh + u"
    using pos bl54 by (simp add: bitLength_shift)
  have q: "k * 2 ^ u div 2 ^ (?sh + u) = k div 2 ^ ?sh"
    by (simp add: power_add)
  have r: "k * 2 ^ u mod 2 ^ (?sh + u) = k mod 2 ^ ?sh * 2 ^ u"
    by (simp add: power_add)
  have "?sh + u - 1 = (?sh - 1) + u" using bl54 by simp
  then have half: "(2::nat) ^ (?sh + u - 1) = 2 ^ (?sh - 1) * 2 ^ u"
    by (simp only: power_add)
  show ?thesis
    unfolding roundMagnitude_def [of "k * 2 ^ u"] roundMagnitude_def [of k] Let_def sh' q r half
    using big big' by (simp add: power_add)
qed

text \<open>
  Beyond \<open>2^53\<close> the sum is rounded: \<open>5000 + 9007199254740991\<close> is the double
  \<open>9007199254745992\<close>, not \<open>9007199254745991\<close>.
\<close>

lemma jsAdd_rounds_beyond_safe_range:
  "jsAdd (num 5000) (num 9007199254740991) = Finite (9007199254745992 * 2 ^ 1074)"
proof -
  have "roundMagnitude 9007199254745991 = 9007199254745992"
    by (simp add: roundMagnitude_def bitLength.simps Let_def)
  moreover have "roundMagnitude (9007199254745991 * 2 ^ 1074)
      = roundMagnitude 9007199254745991 * 2 ^ 1074"
    by (rule roundMagnitude_shift) simp
  ultimately have m: "roundMagnitude (9007199254745991 * 2 ^ 1074)
      = 9007199254745992 * 2 ^ 1074"
    by (simp only:)
  have "jsAdd (num 5000) (num 9007199254740991) = round64 (9007199254745991 * 2 ^ 1074)"
    by (simp add: num_safe)
  also have "\<dots> = Finite (9007199254745992 * 2 ^ 1074)"
    using m by (simp add: round64_def)
  finally show ?thesis .
qed

lemma num_not_NaN: "\<bar>n\<bar> \<le> 2 ^ 53 \<Longrightarrow> num n \<noteq> NaN"
  by (simp add: num_safe)

section \<open>Facts about findIndex\<close>

lemma findIndexFrom_miss:
  "(findIndexFrom P xs i = - 1) = (\<forall>x\<in>set xs. \<not> P x)"
  by (induction xs arbitrary: i) auto

lemma findIndexFrom_hit:
  "\<exists>x\<in>set xs. P x \<Longrightarrow>
   \<exists>k<length xs. findIndexFrom P xs i = int (i + k) \<and> P (xs ! k)
      \<and> (\<forall>j<k. \<not> P (xs ! j)) \<and> List.find P xs = Some (xs ! k)"
proof (induction xs arbitrary: i)
  case Nil
  then show ?case by simp
next
  case (Cons x xs)
  show ?case
  proof (cases "P x")
    case True
    then show ?thesis by (intro exI [of _ 0]) simp
  next
    case False
    with Cons.prems have "\<exists>y\<in>set xs. P y" by simp
    from Cons.IH [OF this, of "Suc i"] obtain k where k: "k < length xs"
      "findIndexFrom P xs (Suc i) = int (Suc i + k)" "P (xs ! k)"
      "\<forall>j<k. \<not> P (xs ! j)" "List.find P xs = Some (xs ! k)"
      by blast
    have "\<forall>j<Suc k. \<not> P ((x # xs) ! j)"
      using False k(4) by (simp add: nth_Cons split: nat.split)
    with False k show ?thesis by (intro exI [of _ "Suc k"]) simp
  qed
qed

lemma find_append_hit: "List.find P xs = Some b \<Longrightarrow> List.find P (xs @ ys) = Some b"
  by (induction xs) (auto split: if_splits)

lemma findIndex_miss: "(findIndex P xs = - 1) = (\<forall>x\<in>set xs. \<not> P x)"
  by (simp add: findIndex_def findIndexFrom_miss)

lemma findIndex_hit:
  assumes "\<exists>x\<in>set xs. P x"
  shows "\<exists>k<length xs. nat (findIndex P xs) = k \<and> P (xs ! k)
      \<and> (\<forall>j<k. \<not> P (xs ! j)) \<and> List.find P xs = Some (xs ! k)"
  using findIndexFrom_hit [OF assms, of 0] by (auto simp: findIndex_def)

section \<open>Facts about structured responses\<close>

lemma structured_succeed: "structured (succeed d)"
  by (simp add: structured_def succeed_def)

lemma structured_failWith: "structured (failWith (Some e))"
  by (simp add: structured_def failWith_def)

lemma structured_getSidechain: "structured (fst (getSidechain s n))"
  by (simp add: getSidechain_def tryCatch_def structured_succeed structured_failWith
      split: option.split)

lemma getSidechain_error:
  "\<not> success (fst (getSidechain s n)) \<Longrightarrow>
   error (fst (getSidechain s n)) = Some (SidechainNotFound n)"
  by (auto simp: getSidechain_def tryCatch_def succeed_def failWith_def split: option.splits)

lemma structured_createDepositTransaction:
  "structured (fst (createDepositTransaction s n amount feeRate))"
proof (cases "success (fst (getSidechain s n))")
  case True
  then show ?thesis
    by (simp add: createDepositTransaction_def tryCatch_def structured_succeed split_def)
next
  case False
  then show ?thesis
    by (simp add: createDepositTransaction_def tryCatch_def structured_failWith split_def
        getSidechain_error)
qed

section \<open>Proposing a withdrawal bundle\<close>

text \<open>
  C1, as the code has it. A proposal never supersedes anything: whatever is stored, also a
  bundle of the same sidechain, it returns success, keeps every stored bundle unchanged at
  its position, and appends one new bundle whose \<open>workScore\<close> is 1 (the source's comment:
  "Initial ACK score is 1"). The registry and the network are untouched.
\<close>

theorem proposal_keeps_bundles_and_starts_at_one:
  "fst (createWithdrawalBundleProposal s n h) = succeed True
   \<and> take (length (withdrawalBundles s))
        (withdrawalBundles (snd (createWithdrawalBundleProposal s n h))) = withdrawalBundles s
   \<and> drop (length (withdrawalBundles s))
        (withdrawalBundles (snd (createWithdrawalBundleProposal s n h)))
       = [\<lparr>sidechainNumber = n, bundleHash = h, workScore = num 1, blocksRemaining = 26299\<rparr>]
   \<and> sidechains (snd (createWithdrawalBundleProposal s n h)) = sidechains s
   \<and> network (snd (createWithdrawalBundleProposal s n h)) = network s"
  by (simp add: createWithdrawalBundleProposal_def tryCatch_def)

text \<open>
  C1 as the spec states it fails on the fresh service: sidechain 0 already has the bundle
  \<open>mockBundle1\<close>; after proposing hash \<open>03\<close> for sidechain 0 the new bundle's
  \<open>workScore\<close> is not 0, and \<open>mockBundle1\<close> is still stored unchanged and still listed
  for sidechain 0 beside the new one.
\<close>

theorem supersession_counterexample:
  "workScore (last (withdrawalBundles
      (snd (createWithdrawalBundleProposal newBIP300Service 0 ''03'')))) \<noteq> num 0
   \<and> withdrawalBundles (snd (createWithdrawalBundleProposal newBIP300Service 0 ''03'')) ! 0
       = mockBundle1
   \<and> fst (getWithdrawalBundlesForSidechain
        (snd (createWithdrawalBundleProposal newBIP300Service 0 ''03'')) 0)
       = succeed [mockBundle1,
           \<lparr>sidechainNumber = 0, bundleHash = ''03'', workScore = num 1,
            blocksRemaining = 26299\<rparr>]"
  by (simp add: createWithdrawalBundleProposal_def tryCatch_def newBIP300Service_def
      initializeMockData_def getWithdrawalBundlesForSidechain_def mockBundle1_def
      mockBundle2_def num_eq_iff)

text \<open>
  C2, as the code has it. The store keeps no single-active rule: a proposal for sidechain
  \<open>n\<close> keeps every bundle that is being scored, in store order, and adds the new bundle
  (\<open>workScore\<close> 1, 26299 blocks remaining) to those of sidechain \<open>n\<close>; the bundles being
  scored of every other sidechain are the same list as before.
\<close>

theorem proposal_adds_one_active_bundle:
  "activeBundles (snd (createWithdrawalBundleProposal s n h)) m
     = activeBundles s m @
       (if m = n
        then [\<lparr>sidechainNumber = n, bundleHash = h, workScore = num 1,
               blocksRemaining = 26299\<rparr>]
        else [])"
  by (simp add: createWithdrawalBundleProposal_def tryCatch_def activeBundles_def jsLess_num)

text \<open>
  C2 as the spec states it fails: one proposal for sidechain 0 on the fresh service
  leaves more than one bundle of sidechain 0 being scored.
\<close>

theorem single_active_counterexample:
  "\<not> length (activeBundles
        (snd (createWithdrawalBundleProposal newBIP300Service 0 ''03'')) 0) \<le> 1"
  by (simp add: createWithdrawalBundleProposal_def tryCatch_def newBIP300Service_def
      initializeMockData_def activeBundles_def mockBundle1_def mockBundle2_def jsLess_num)

text \<open>
  C3 is violated by the code. On the fresh service no sidechain has number 7:
  \<open>getSidechain\<close> does not find it and the sibling \<open>createDepositTransaction\<close> rejects
  it with "Sidechain with escrow number 7 not found"; yet a withdrawal bundle proposal
  for sidechain 7 returns success and inserts the bundle.
\<close>

theorem unregistered_sidechain_proposal_accepted:
  "fst (getSidechain newBIP300Service 7) = failWith (Some (SidechainNotFound 7))
   \<and> fst (createDepositTransaction newBIP300Service 7 1 1)
       = failWith (Some (SidechainNotFound 7))
   \<and> fst (createWithdrawalBundleProposal newBIP300Service 7 ''03'') = succeed True
   \<and> withdrawalBundles (snd (createWithdrawalBundleProposal newBIP300Service 7 ''03''))
       = [mockBundle1, mockBundle2,
          \<lparr>sidechainNumber = 7, bundleHash = ''03'', workScore = num 1,
           blocksRemaining = 26299\<rparr>]"
  by (simp add: createWithdrawalBundleProposal_def createDepositTransaction_def
      getSidechain_def tryCatch_def newBIP300Service_def initializeMockData_def
      mockSidechain_def failWith_def)

text \<open>
  C4, as the code has it. A proposal whose hash is already stored is not rejected: it
  returns success and appends a second entry with that hash; a later lookup by that hash
  (\<open>getWithdrawalBundleState\<close>) still resolves to the entry that was stored first.
\<close>

theorem duplicate_hash_is_appended:
  assumes "List.find (\<lambda>b. bundleHash b = h) (withdrawalBundles s) = Some b"
  shows "fst (createWithdrawalBundleProposal s n h) = succeed True
    \<and> withdrawalBundles (snd (createWithdrawalBundleProposal s n h))
        = withdrawalBundles s @
          [\<lparr>sidechainNumber = n, bundleHash = h, workScore = num 1,
            blocksRemaining = 26299\<rparr>]
    \<and> fst (getWithdrawalBundleState (snd (createWithdrawalBundleProposal s n h)) h)
        = succeed b"
proof -
  from assms have "List.find (\<lambda>b. bundleHash b = h)
      (withdrawalBundles s @
        [\<lparr>sidechainNumber = n, bundleHash = h, workScore = num 1,
          blocksRemaining = 26299\<rparr>])
      = Some b"
    by (rule find_append_hit)
  then show ?thesis
    by (simp add: createWithdrawalBundleProposal_def getWithdrawalBundleState_def tryCatch_def)
qed

theorem duplicate_hash_is_appended_witness:
  "fst (createWithdrawalBundleProposal newBIP300Service 0 (bundleHash mockBundle1))
     = succeed True
   \<and> withdrawalBundles
        (snd (createWithdrawalBundleProposal newBIP300Service 0 (bundleHash mockBundle1)))
        = [mockBundle1, mockBundle2,
           mockBundle1\<lparr>workScore := num 1, blocksRemaining := 26299\<rparr>]
   \<and> fst (getWithdrawalBundleState
        (snd (createWithdrawalBundleProposal newBIP300Service 0 (bundleHash mockBundle1)))
        (bundleHash mockBundle1)) = succeed mockBundle1"
proof -
  have "List.find (\<lambda>b. bundleHash b = bundleHash mockBundle1)
      (withdrawalBundles newBIP300Service) = Some mockBundle1"
    by (simp add: newBIP300Service_def initializeMockData_def)
  from duplicate_hash_is_appended [OF this, of 0] show ?thesis
    by (simp add: newBIP300Service_def initializeMockData_def mockBundle1_def)
qed

text \<open>
  C4 as the spec states it fails: on the fresh service the hash of \<open>mockBundle1\<close> is
  stored for sidechain 0 with fewer than 13150 ACKs; proposing it again for sidechain 0
  returns success with no error, and the store then holds a third entry with the same
  hash and sidechain number as the first.
\<close>

theorem duplicate_bundle_counterexample:
  "success (fst (createWithdrawalBundleProposal newBIP300Service 0 (bundleHash mockBundle1)))
   \<and> error (fst (createWithdrawalBundleProposal newBIP300Service 0 (bundleHash mockBundle1)))
       = None
   \<and> length (withdrawalBundles
        (snd (createWithdrawalBundleProposal newBIP300Service 0 (bundleHash mockBundle1)))) = 3
   \<and> bundleHash (withdrawalBundles
        (snd (createWithdrawalBundleProposal newBIP300Service 0 (bundleHash mockBundle1))) ! 2)
      = bundleHash (withdrawalBundles newBIP300Service ! 0)
   \<and> sidechainNumber (withdrawalBundles
        (snd (createWithdrawalBundleProposal newBIP300Service 0 (bundleHash mockBundle1))) ! 2)
      = sidechainNumber (withdrawalBundles newBIP300Service ! 0)
   \<and> jsLess (workScore (withdrawalBundles newBIP300Service ! 0)) (num 13150)"
  by (simp add: createWithdrawalBundleProposal_def tryCatch_def newBIP300Service_def
      initializeMockData_def mockBundle1_def succeed_def jsLess_num)

text \<open>
  C9. Every newly proposed withdrawal bundle starts with \<open>blocksRemaining\<close> equal to the
  full deadline window of 26299 blocks, that is \<open>max 0 (26299 - 0)\<close> with no block
  elapsed: the proposal appends exactly one entry, at the end of the store, and that entry
  carries the proposed sidechain number and hash and \<open>blocksRemaining = 26299\<close>.
\<close>

theorem proposal_starts_with_full_window:
  "length (withdrawalBundles (snd (createWithdrawalBundleProposal s n h)))
     = Suc (length (withdrawalBundles s))
   \<and> sidechainNumber (last (withdrawalBundles (snd (createWithdrawalBundleProposal s n h)))) = n
   \<and> bundleHash (last (withdrawalBundles (snd (createWithdrawalBundleProposal s n h)))) = h
   \<and> blocksRemaining (last (withdrawalBundles (snd (createWithdrawalBundleProposal s n h))))
       = max 0 (26299 - 0)"
  by (simp add: createWithdrawalBundleProposal_def tryCatch_def)

section \<open>Acknowledging a bundle\<close>

text \<open>
  C5, as the code has it. A successful ACK application replaces the \<open>workScore\<close> of one
  bundle, the first stored entry with the given hash, by the double sum of that score and
  the caller's \<open>ackCount\<close> (not 1). When both are integers and they and their sum have
  magnitude at most \<open>2^53\<close>, the score changes by exactly \<open>ackCount\<close>. Every other entry
  of the store, and every other field of that bundle, is unchanged.
\<close>

theorem ack_adds_ackCount:
  assumes "success (fst (simulateAckWithdrawalBundle s h ackCount))"
  shows "\<exists>i<length (withdrawalBundles s).
      bundleHash (withdrawalBundles s ! i) = h
    \<and> (\<forall>j<i. bundleHash (withdrawalBundles s ! j) \<noteq> h)
    \<and> workScore (withdrawalBundles (snd (simulateAckWithdrawalBundle s h ackCount)) ! i)
        = jsAdd (workScore (withdrawalBundles s ! i)) ackCount
    \<and> (\<forall>a c. workScore (withdrawalBundles s ! i) = num a \<and> ackCount = num c
          \<and> \<bar>a\<bar> \<le> 2 ^ 53 \<and> \<bar>c\<bar> \<le> 2 ^ 53 \<and> \<bar>a + c\<bar> \<le> 2 ^ 53 \<longrightarrow>
        workScore (withdrawalBundles (snd (simulateAckWithdrawalBundle s h ackCount)) ! i)
          = num (a + c))
    \<and> (\<forall>j<length (withdrawalBundles s). j \<noteq> i \<longrightarrow>
          withdrawalBundles (snd (simulateAckWithdrawalBundle s h ackCount)) ! j
            = withdrawalBundles s ! j)
    \<and> withdrawalBundles (snd (simulateAckWithdrawalBundle s h ackCount))
       = (withdrawalBundles s)[i := (withdrawalBundles s ! i)
            \<lparr>workScore := jsAdd (workScore (withdrawalBundles s ! i)) ackCount\<rparr>]"
proof -
  let ?P = "\<lambda>bundle. bundleHash bundle = h"
  let ?new = "withdrawalBundles (snd (simulateAckWithdrawalBundle s h ackCount))"
  have ex: "\<exists>x\<in>set (withdrawalBundles s). ?P x"
  proof (rule ccontr)
    assume "\<not> ?thesis"
    then have "findIndex ?P (withdrawalBundles s) = - 1"
      by (simp add: findIndex_miss)
    then have "\<not> success (fst (simulateAckWithdrawalBundle s h ackCount))"
      by (simp add: simulateAckWithdrawalBundle_def tryCatch_def failWith_def)
    with assms show False by simp
  qed
  then have ne: "findIndex ?P (withdrawalBundles s) \<noteq> - 1"
    by (simp add: findIndex_miss)
  from findIndex_hit [OF ex] obtain k where k: "k < length (withdrawalBundles s)"
    "nat (findIndex ?P (withdrawalBundles s)) = k" "?P (withdrawalBundles s ! k)"
    "\<forall>j<k. \<not> ?P (withdrawalBundles s ! j)"
    by blast
  have upd: "?new = (withdrawalBundles s)[k := (withdrawalBundles s ! k)
            \<lparr>workScore := jsAdd (workScore (withdrawalBundles s ! k)) ackCount\<rparr>]"
    using ne k(2) by (simp add: simulateAckWithdrawalBundle_def tryCatch_def Let_def)
  then have score: "workScore (?new ! k) = jsAdd (workScore (withdrawalBundles s ! k)) ackCount"
    using k(1) by simp
  have exact: "\<forall>a c. workScore (withdrawalBundles s ! k) = num a \<and> ackCount = num c
          \<and> \<bar>a\<bar> \<le> 2 ^ 53 \<and> \<bar>c\<bar> \<le> 2 ^ 53 \<and> \<bar>a + c\<bar> \<le> 2 ^ 53 \<longrightarrow>
        workScore (?new ! k) = num (a + c)"
  proof (intro allI impI)
    fix a c
    assume h: "workScore (withdrawalBundles s ! k) = num a \<and> ackCount = num c
          \<and> \<bar>a\<bar> \<le> 2 ^ 53 \<and> \<bar>c\<bar> \<le> 2 ^ 53 \<and> \<bar>a + c\<bar> \<le> 2 ^ 53"
    then have "jsAdd (num a) (num c) = num (a + c)" by (intro jsAdd_num) simp_all
    with h score show "workScore (?new ! k) = num (a + c)" by simp
  qed
  from upd have frame: "\<forall>j<length (withdrawalBundles s). j \<noteq> k \<longrightarrow>
      ?new ! j = withdrawalBundles s ! j"
    by simp
  from k(1) k(3) k(4) score exact frame upd show ?thesis by blast
qed

theorem ack_adds_ackCount_witness:
  "success (fst (simulateAckWithdrawalBundle newBIP300Service (bundleHash mockBundle2) (num 7)))
   \<and> map workScore (withdrawalBundles
        (snd (simulateAckWithdrawalBundle newBIP300Service (bundleHash mockBundle2) (num 7))))
      = [num 5000, num 8007]"
proof -
  let ?new = "withdrawalBundles
        (snd (simulateAckWithdrawalBundle newBIP300Service (bundleHash mockBundle2) (num 7)))"
  have store: "withdrawalBundles newBIP300Service = [mockBundle1, mockBundle2]"
    by (simp add: newBIP300Service_def initializeMockData_def)
  have ok: "success (fst (simulateAckWithdrawalBundle newBIP300Service
      (bundleHash mockBundle2) (num 7)))"
    by (simp add: simulateAckWithdrawalBundle_def tryCatch_def store mockBundle1_def
        mockBundle2_def findIndex_def succeed_def)
  from ack_adds_ackCount [OF ok] obtain i where i: "i < length (withdrawalBundles newBIP300Service)"
    "bundleHash (withdrawalBundles newBIP300Service ! i) = bundleHash mockBundle2"
    "\<forall>a c. workScore (withdrawalBundles newBIP300Service ! i) = num a \<and> num 7 = num c
          \<and> \<bar>a\<bar> \<le> 2 ^ 53 \<and> \<bar>c\<bar> \<le> 2 ^ 53 \<and> \<bar>a + c\<bar> \<le> 2 ^ 53 \<longrightarrow>
        workScore (?new ! i) = num (a + c)"
    "\<forall>j<length (withdrawalBundles newBIP300Service). j \<noteq> i \<longrightarrow>
          ?new ! j = withdrawalBundles newBIP300Service ! j"
    "?new = (withdrawalBundles newBIP300Service)[i := (withdrawalBundles newBIP300Service ! i)
            \<lparr>workScore := jsAdd (workScore (withdrawalBundles newBIP300Service ! i)) (num 7)\<rparr>]"
    by blast
  from i(1) have "i = 0 \<or> i = 1" by (auto simp: store)
  with i(2) have i1: "i = 1"
    by (auto simp: store mockBundle1_def mockBundle2_def)
  have "length ?new = length (withdrawalBundles newBIP300Service)"
    by (subst i(5)) (rule length_list_update)
  then have len: "length ?new = 2" by (simp add: store)
  have "workScore (withdrawalBundles newBIP300Service ! 1) = num 8000 \<and> num 7 = num 7
      \<and> \<bar>8000::int\<bar> \<le> 2 ^ 53 \<and> \<bar>7::int\<bar> \<le> 2 ^ 53 \<and> \<bar>8000 + 7::int\<bar> \<le> 2 ^ 53"
    by (simp add: store mockBundle2_def)
  with i(3) i1 have s1: "workScore (?new ! 1) = num (8000 + 7)" by blast
  from i(4) i1 have "?new ! 0 = withdrawalBundles newBIP300Service ! 0"
    by (simp add: store)
  then have s0: "workScore (?new ! 0) = num 5000" by (simp add: store mockBundle1_def)
  have "map workScore ?new = [workScore (?new ! 0), workScore (?new ! 1)]"
    using len by (auto simp: list_eq_iff_nth_eq nth_Cons split: nat.split) 
  with s0 s1 ok show ?thesis by simp
qed

text \<open>
  C5 as the spec states it fails: one ACK application with \<open>ackCount = 5\<close> on the fresh
  service succeeds and leaves the bundle's \<open>workScore\<close> different from its old value
  plus 1.
\<close>

theorem ack_plus_one_counterexample:
  "success (fst (simulateAckWithdrawalBundle newBIP300Service (bundleHash mockBundle1) (num 5)))
   \<and> workScore (withdrawalBundles
        (snd (simulateAckWithdrawalBundle newBIP300Service (bundleHash mockBundle1) (num 5))) ! 0)
      \<noteq> jsAdd (workScore (withdrawalBundles newBIP300Service ! 0)) (num 1)"
  by (simp add: simulateAckWithdrawalBundle_def tryCatch_def newBIP300Service_def
      initializeMockData_def mockBundle1_def mockBundle2_def findIndex_def succeed_def
      jsAdd_num num_eq_iff)

text \<open>
  C7. An ACK application succeeds exactly when some stored bundle has the given hash. When
  none has, the call returns (as its value, through the normal return of the \<open>try\<close>
  body) the failure "Withdrawal bundle with hash h not found" and leaves the state
  unchanged; when one has, it returns success with data \<open>true\<close>.
\<close>

theorem ack_unknown_bundle:
  "success (fst (simulateAckWithdrawalBundle s h ackCount))
     = (\<exists>b\<in>set (withdrawalBundles s). bundleHash b = h)
   \<and> ((\<forall>b\<in>set (withdrawalBundles s). bundleHash b \<noteq> h) \<longrightarrow>
        simulateAckWithdrawalBundle s h ackCount = (failWith (Some (BundleNotFound h)), s))
   \<and> ((\<exists>b\<in>set (withdrawalBundles s). bundleHash b = h) \<longrightarrow>
        fst (simulateAckWithdrawalBundle s h ackCount) = succeed True)"
  by (auto simp: simulateAckWithdrawalBundle_def tryCatch_def succeed_def failWith_def Let_def
      findIndex_miss)

theorem ack_unknown_bundle_witness:
  "simulateAckWithdrawalBundle newBIP300Service ''ff'' (num 1)
     = (failWith (Some (BundleNotFound ''ff'')), newBIP300Service)
   \<and> fst (simulateAckWithdrawalBundle newBIP300Service (bundleHash mockBundle2) (num 1))
     = succeed True"
proof -
  have absent: "\<forall>b\<in>set (withdrawalBundles newBIP300Service). bundleHash b \<noteq> ''ff''"
    by (simp add: newBIP300Service_def initializeMockData_def mockBundle1_def mockBundle2_def)
  have present: "\<exists>b\<in>set (withdrawalBundles newBIP300Service). bundleHash b = bundleHash mockBundle2"
    by (simp add: newBIP300Service_def initializeMockData_def)
  from ack_unknown_bundle [of newBIP300Service "''ff''" "num 1"] absent
  have 1: "simulateAckWithdrawalBundle newBIP300Service ''ff'' (num 1)
     = (failWith (Some (BundleNotFound ''ff'')), newBIP300Service)"
    by blast
  from ack_unknown_bundle [of newBIP300Service "bundleHash mockBundle2" "num 1"] present
  have 2: "fst (simulateAckWithdrawalBundle newBIP300Service (bundleHash mockBundle2) (num 1))
     = succeed True"
    by blast
  from 1 2 show ?thesis by simp
qed

section \<open>Creating the withdrawal (M6) transaction\<close>




section \<open>Results and queries\<close>

text \<open>
  C8, as the code has it. Every public operation other than \<open>setNetwork\<close> returns a
  structured result, for every state and every argument: a success with data and no
  error message, or a failure with an error message and no data. \<open>setNetwork\<close> returns no
  value (\<open>undefined\<close>): it stores the network and changes nothing else. Nothing escapes as
  an exception: no statement of a \<open>try\<close> body can throw on arguments of the declared
  types, and the \<open>catch\<close> block turns whatever is thrown into a structured failure (last
  conjunct).
\<close>

theorem responses_structured_and_setNetwork_void:
  "structuredResult (Response (fst (getSidechains s)))
   \<and> structuredResult (Response (fst (getSidechain s n)))
   \<and> structuredResult (Response (fst (getWithdrawalBundles s)))
   \<and> structuredResult (Response (fst (getWithdrawalBundlesForSidechain s n)))
   \<and> structuredResult (Response (fst (createDepositTransaction s n amount feeRate)))
   \<and> structuredResult (Response (fst (createWithdrawalBundleProposal s n h)))
   \<and> structuredResult (Response (fst (simulateAckWithdrawalBundle s h ackCount)))
   \<and> structuredResult (Response (fst (createWithdrawalTransaction s h)))
   \<and> structuredResult (Response (fst (getWithdrawalBundleState s h)))
   \<and> fst (setNetwork s nw) = Undefined
   \<and> network (snd (setNetwork s nw)) = nw
   \<and> sidechains (snd (setNetwork s nw)) = sidechains s
   \<and> withdrawalBundles (snd (setNetwork s nw)) = withdrawalBundles s
   \<and> structuredResult
        (Response (fst (tryCatch (Throw e) (\<lambda>e. (failWith (Some (Caught p e)), s)))))"
proof (intro conjI)
  show "structuredResult (Response (fst (getSidechains s)))"
    by (simp add: structuredResult_def getSidechains_def tryCatch_def structured_succeed)
  show "structuredResult (Response (fst (getSidechain s n)))"
    by (simp add: structuredResult_def structured_getSidechain)
  show "structuredResult (Response (fst (getWithdrawalBundles s)))"
    by (simp add: structuredResult_def getWithdrawalBundles_def tryCatch_def
        structured_succeed)
  show "structuredResult (Response (fst (getWithdrawalBundlesForSidechain s n)))"
    by (simp add: structuredResult_def getWithdrawalBundlesForSidechain_def tryCatch_def
        structured_succeed)
  show "structuredResult (Response (fst (createDepositTransaction s n amount feeRate)))"
    by (simp add: structuredResult_def structured_createDepositTransaction)
  show "structuredResult (Response (fst (createWithdrawalBundleProposal s n h)))"
    by (simp add: structuredResult_def createWithdrawalBundleProposal_def tryCatch_def
        structured_succeed)
  show "structuredResult (Response (fst (simulateAckWithdrawalBundle s h ackCount)))"
    by (simp add: structuredResult_def simulateAckWithdrawalBundle_def tryCatch_def
        structured_succeed structured_failWith Let_def)
  show "structuredResult (Response (fst (createWithdrawalTransaction s h)))"
    by (simp add: structuredResult_def createWithdrawalTransaction_def tryCatch_def
        structured_succeed structured_failWith split: option.split)
  show "structuredResult (Response (fst (getWithdrawalBundleState s h)))"
    by (simp add: structuredResult_def getWithdrawalBundleState_def tryCatch_def
        structured_succeed structured_failWith split: option.split)
  show "fst (setNetwork s nw) = Undefined"
    and "network (snd (setNetwork s nw)) = nw"
    and "sidechains (snd (setNetwork s nw)) = sidechains s"
    and "withdrawalBundles (snd (setNetwork s nw)) = withdrawalBundles s"
    by (simp_all add: setNetwork_def)
  show "structuredResult
        (Response (fst (tryCatch (Throw e) (\<lambda>e. (failWith (Some (Caught p e)), s)))))"
    by (simp add: structuredResult_def tryCatch_def structured_failWith)
qed

theorem responses_structured_and_setNetwork_void_witness:
  "structuredResult (Response (fst (createDepositTransaction newBIP300Service 7 1 1)))
   \<and> error (fst (createDepositTransaction newBIP300Service 7 1 1))
       = Some (SidechainNotFound 7)
   \<and> structuredResult
       (Response (fst (createWithdrawalTransaction newBIP300Service (bundleHash mockBundle1))))
   \<and> data (fst (createWithdrawalTransaction newBIP300Service (bundleHash mockBundle1))) = None
   \<and> fst (setNetwork newBIP300Service MAINNET) = Undefined"
proof -
  note all = responses_structured_and_setNetwork_void
    [of newBIP300Service 7 1 1 "bundleHash mockBundle1" "num 1" MAINNET "''boom''" "''Error''"]
  from all have dep:
    "structuredResult (Response (fst (createDepositTransaction newBIP300Service 7 1 1)))"
    by (elim conjE)
  from all have wd: "structuredResult
      (Response (fst (createWithdrawalTransaction newBIP300Service (bundleHash mockBundle1))))"
    by (elim conjE)
  from all have void: "fst (setNetwork newBIP300Service MAINNET) = Undefined"
    by (elim conjE)
  have err: "error (fst (createDepositTransaction newBIP300Service 7 1 1))
       = Some (SidechainNotFound 7)"
    by (simp add: createDepositTransaction_def getSidechain_def tryCatch_def
        newBIP300Service_def initializeMockData_def mockSidechain_def failWith_def)
  have none:
    "data (fst (createWithdrawalTransaction newBIP300Service (bundleHash mockBundle1))) = None"
    by (simp add: createWithdrawalTransaction_def tryCatch_def newBIP300Service_def
        initializeMockData_def mockBundle1_def failWith_def jsLess_num)
  from dep err wd none void show ?thesis by simp
qed

text \<open>
  C8 as the spec states it fails for \<open>setNetwork\<close>, a public operation: what it returns
  on the fresh service is not a structured result.
\<close>

theorem setNetwork_result_counterexample:
  "\<not> structuredResult (fst (setNetwork newBIP300Service MAINNET))"
  by (simp add: setNetwork_def structuredResult_def)

text \<open>
  C10. The five queries (\<open>getSidechains\<close>, \<open>getSidechain\<close>, \<open>getWithdrawalBundles\<close>,
  \<open>getWithdrawalBundlesForSidechain\<close>, \<open>getWithdrawalBundleState\<close>) return the state they
  were called on, for every argument, found or not; and \<open>getWithdrawalBundlesForSidechain\<close>
  succeeds with exactly the stored bundles whose \<open>sidechainNumber\<close> is its argument, in
  store order.
\<close>

theorem queries_leave_state_unchanged:
  "snd (getSidechains s) = s
   \<and> snd (getSidechain s n) = s
   \<and> snd (getWithdrawalBundles s) = s
   \<and> snd (getWithdrawalBundlesForSidechain s n) = s
   \<and> snd (getWithdrawalBundleState s h) = s
   \<and> fst (getWithdrawalBundlesForSidechain s n)
       = succeed (filter (\<lambda>b. sidechainNumber b = n) (withdrawalBundles s))"
  by (simp add: getSidechains_def getSidechain_def getWithdrawalBundles_def
      getWithdrawalBundlesForSidechain_def getWithdrawalBundleState_def tryCatch_def
      split: option.split)

end
